theory Spec2Isabelle
  imports Main "HOL-Library.AList"
begin

section \<open>The program model consumed by the checker (go/types, go/ast, go/loader)\<close>

text \<open>
  The checker of \<^verbatim>\<open>unused.go\<close> reads a type-checked program through the
  interfaces of go/types and go/ast. The values those interfaces return are data here.
  A \<^verbatim>\<open>types.Object\<close> is compared by pointer in the source (it is a map key); the
  field \<open>oid\<close> stands for that pointer, so that equality of the modelled objects is the
  identity of the source objects.
\<close>

datatype scope = Universe | Scope nat

datatype package = Package (pkg_Name: string) (pkg_Scope: scope)

text \<open>The dynamic type of a \<^verbatim>\<open>types.Object\<close>. A \<^verbatim>\<open>*types.Func\<close> carries the
  receiver type of its signature (\<^verbatim>\<open>Type().(*types.Signature).Recv().Type()\<close>),
  \<open>None\<close> for a nil receiver; a \<^verbatim>\<open>*types.Var\<close> carries \<^verbatim>\<open>IsField()\<close>.\<close>

datatype 't okind =
    Var bool
  | Const
  | TypeName
  | Func "'t option"
  | PkgName
  | Label
  | Builtin
  | NilObj

text \<open>Types: a \<^verbatim>\<open>*types.Interface\<close> is its pointer and the names of its methods
  (\<^verbatim>\<open>NumMethods\<close>, \<^verbatim>\<open>Method(i).Name()\<close>), a struct is its list of field objects
  (\<^verbatim>\<open>NumFields\<close>, \<^verbatim>\<open>Field(i)\<close>), a named type has an underlying type. An object is
  what its methods answer: \<^verbatim>\<open>Pkg()\<close> (nil for the objects of the universe),
  \<^verbatim>\<open>Parent()\<close> (nil for fields and methods), \<^verbatim>\<open>Name()\<close>, \<^verbatim>\<open>Exported()\<close>,
  the file name of \<^verbatim>\<open>lprog.Fset.Position(obj.Pos())\<close>, and \<^verbatim>\<open>Type()\<close>.\<close>

datatype interface = InterfaceT (iface_id: nat) (method_names: "string list")

datatype gtype =
    Interface interface
  | Struct "object list"
  | Named string gtype
  | OtherType
and object =
  Object (oid: nat) (kind: "gtype okind") (Pkg: "package option") (Parent: "scope option")
         (Name: string) (Exported: bool) (Filename: string) (otype: gtype)

text \<open>\<^verbatim>\<open>Type.Underlying()\<close>.\<close>

fun Underlying :: "gtype \<Rightarrow> gtype" where
  "Underlying (Named n u) = Underlying u"
| "Underlying t = t"

text \<open>Syntax trees, as far as \<^verbatim>\<open>ast.Walk\<close> and the visitor of \<^verbatim>\<open>Check\<close> look at
  them. A composite literal has its type expression (nil when elided), its elements
  and the answer of \<^verbatim>\<open>pkg.TypeOf(node)\<close>; an identifier has the answer of
  \<^verbatim>\<open>pkg.ObjectOf(ident)\<close>. Both answers may be nil.\<close>

datatype node =
    CompositeLit "node option" "node list" "gtype option"
  | StructType "node list"
  | Ident "object option"
  | KeyValueExpr node node
  | OtherNode "node list"

text \<open>\<^verbatim>\<open>loader.PackageInfo\<close>: the values of the maps \<^verbatim>\<open>Defs\<close> (nil entries
  included) and \<^verbatim>\<open>Uses\<close>, and the files.\<close>

record PackageInfo =
  Defs :: "object option list"
  Uses :: "object list"
  Files :: "node list"

datatype error =
    GetwdError string
  | CantLoadPackage string string
  | LoadError string
  | NilDereference

text \<open>What the checker calls outside this repository: \<^verbatim>\<open>os.Getwd\<close>,
  \<^verbatim>\<open>build.Import(path, wd, build.FindOnly)\<close> (its \<^verbatim>\<open>ImportPath\<close>, or an error
  text), \<^verbatim>\<open>conf.Load()\<close> followed by \<^verbatim>\<open>lprog.InitialPackages()\<close> (given the
  verbosity and the paths imported with tests), and \<^verbatim>\<open>types.Implements\<close>.\<close>

record env =
  Getwd :: "string + string"
  build_Import :: "string \<Rightarrow> string \<Rightarrow> string + string"
  Load :: "bool \<Rightarrow> string list \<Rightarrow> string + PackageInfo list"
  types_Implements :: "gtype \<Rightarrow> interface \<Rightarrow> bool"

section \<open>unused.go\<close>

text \<open>\<^verbatim>\<open>CheckMode\<close> is a Go \<^verbatim>\<open>int\<close>; only its bitwise conjunction with the five
  one-bit constants is ever taken, which two's-complement \<open>int\<close> computes alike.\<close>

definition CheckConstants :: int where "CheckConstants = 1"
definition CheckFields :: int where "CheckFields = 2"
definition CheckFunctions :: int where "CheckFunctions = 4"
definition CheckTypes :: int where "CheckTypes = 8"
definition CheckVariables :: int where "CheckVariables = 16"

record Checker =
  Mode :: int
  Verbose :: bool

definition checkConstants :: "Checker \<Rightarrow> bool" where
  "checkConstants c = (and (Mode c) CheckConstants > 0)"
definition checkFields :: "Checker \<Rightarrow> bool" where
  "checkFields c = (and (Mode c) CheckFields > 0)"
definition checkFunctions :: "Checker \<Rightarrow> bool" where
  "checkFunctions c = (and (Mode c) CheckFunctions > 0)"
definition checkTypes :: "Checker \<Rightarrow> bool" where
  "checkTypes c = (and (Mode c) CheckTypes > 0)"
definition checkVariables :: "Checker \<Rightarrow> bool" where
  "checkVariables c = (and (Mode c) CheckVariables > 0)"

text \<open>\<^verbatim>\<open>obj.Parent() == obj.Pkg().Scope()\<close>; go/types answers the universe scope for
  the scope of a nil package.\<close>

definition isPkgScope :: "object \<Rightarrow> bool" where
  "isPkgScope obj =
     (Parent obj = Some (case Pkg obj of None \<Rightarrow> Universe | Some p \<Rightarrow> pkg_Scope p))"

definition isFunction :: "object \<Rightarrow> bool" where
  "isFunction obj = (case kind obj of Func r \<Rightarrow> True | _ \<Rightarrow> False)"

definition isMethod :: "object \<Rightarrow> bool" where
  "isMethod obj =
     (if \<not> isFunction obj then False
      else (case kind obj of Func r \<Rightarrow> r \<noteq> None | _ \<Rightarrow> False))"

definition isVariable :: "object \<Rightarrow> bool" where
  "isVariable obj = (case kind obj of Var f \<Rightarrow> True | _ \<Rightarrow> False)"

definition isConstant :: "object \<Rightarrow> bool" where
  "isConstant obj = (case kind obj of Const \<Rightarrow> True | _ \<Rightarrow> False)"

definition isType :: "object \<Rightarrow> bool" where
  "isType obj = (case kind obj of TypeName \<Rightarrow> True | _ \<Rightarrow> False)"

definition isField :: "object \<Rightarrow> bool" where
  "isField obj = (case kind obj of Var f \<Rightarrow> f | _ \<Rightarrow> False)"

definition isMain :: "object \<Rightarrow> bool" where
  "isMain obj =
     (case Pkg obj of
        None \<Rightarrow> False
      | Some p \<Rightarrow>
          if pkg_Name p \<noteq> ''main'' then False
          else if Name obj \<noteq> ''main'' then False
          else if \<not> isPkgScope obj then False
          else if \<not> isFunction obj then False
          else if isMethod obj then False
          else True)"

definition checkFlags :: "Checker \<Rightarrow> object \<Rightarrow> bool" where
  "checkFlags c obj =
     (if isFunction obj \<and> \<not> checkFunctions c then False
      else if isVariable obj \<and> \<not> checkVariables c then False
      else if isConstant obj \<and> \<not> checkConstants c then False
      else if isType obj \<and> \<not> checkTypes c then False
      else if isField obj \<and> \<not> checkFields c then False
      else True)"

text \<open>\<^verbatim>\<open>implements\<close>: the two unchecked type assertions and the call on the receiver
  panic for an object that is not a method.\<close>

fun implements_loop :: "env \<Rightarrow> gtype \<Rightarrow> string \<Rightarrow> interface list \<Rightarrow> bool" where
  "implements_loop E recvType nm [] = False"
| "implements_loop E recvType nm (iface # ifaces) =
     (if \<not> types_Implements E recvType iface then implements_loop E recvType nm ifaces
      else if list_ex (\<lambda>m. m = nm) (method_names iface) then True
      else implements_loop E recvType nm ifaces)"

definition implements :: "env \<Rightarrow> object \<Rightarrow> interface list \<Rightarrow> error + bool" where
  "implements E obj ifaces =
     (case kind obj of
        Func (Some recvType) \<Rightarrow> Inr (implements_loop E recvType (Name obj) ifaces)
      | _ \<Rightarrow> Inl NilDereference)"

text \<open>\<^verbatim>\<open>strings.HasPrefix\<close> and \<^verbatim>\<open>strings.HasSuffix\<close>.\<close>

definition HasPrefix :: "string \<Rightarrow> string \<Rightarrow> bool" where
  "HasPrefix s p = (length s \<ge> length p \<and> take (length p) s = p)"

definition HasSuffix :: "string \<Rightarrow> string \<Rightarrow> bool" where
  "HasSuffix s x = (length s \<ge> length x \<and> drop (length s - length x) s = x)"

text \<open>\<^verbatim>\<open>resolveRelative\<close> overwrites the slice it is given; the model returns the
  slice as it is when the function returns, with the error if any.\<close>

fun resolve_range :: "env \<Rightarrow> string \<Rightarrow> string list \<Rightarrow> string list \<times> error option" where
  "resolve_range E wd [] = ([], None)"
| "resolve_range E wd (path # rest) =
     (case build_Import E path wd of
        Inl err \<Rightarrow> (path # rest, Some (CantLoadPackage path err))
      | Inr importPath \<Rightarrow>
          (case resolve_range E wd rest of (rest', e) \<Rightarrow> (importPath # rest', e)))"

definition resolveRelative :: "env \<Rightarrow> string list \<Rightarrow> string list \<times> error option" where
  "resolveRelative E importPaths =
     (case Getwd E of
        Inl err \<Rightarrow> (importPaths, Some (GetwdError err))
      | Inr wd \<Rightarrow> resolve_range E wd importPaths)"

subsection \<open>Check: the construction of the table\<close>

text \<open>\<^verbatim>\<open>defs\<close> is a Go map from objects to booleans: an association list with one
  entry for each key, assigned with \<^const>\<open>AList.update\<close>. Go leaves the order of
  \<^verbatim>\<open>range\<close> over a map open; the order of the list is one such order.\<close>

type_synonym defs = "(object \<times> bool) list"

type_synonym cstate = "defs \<times> interface list"

text \<open>The body of the loop over \<^verbatim>\<open>pkg.Defs\<close>.\<close>

definition def_interfaces :: "object \<Rightarrow> interface list \<Rightarrow> interface list" where
  "def_interfaces obj interfaces =
     (let i1 = (case kind obj of
                  Var f \<Rightarrow> (case otype obj of Interface typ \<Rightarrow> interfaces @ [typ] | _ \<Rightarrow> interfaces)
                | _ \<Rightarrow> interfaces)
      in (case kind obj of
            TypeName \<Rightarrow>
              (case Underlying (otype obj) of Interface typ \<Rightarrow> i1 @ [typ] | _ \<Rightarrow> i1)
          | _ \<Rightarrow> i1))"

definition is_candidate :: "object \<Rightarrow> bool" where
  "is_candidate obj =
     (if isVariable obj \<and> \<not> isPkgScope obj \<and> \<not> isField obj then False
      else if kind obj = PkgName then False
      else True)"

fun def_step :: "object option \<Rightarrow> cstate \<Rightarrow> cstate" where
  "def_step None (defs, interfaces) = (defs, interfaces)"
| "def_step (Some obj) (defs, interfaces) =
     (if is_candidate obj
      then (AList.update obj False defs, def_interfaces obj interfaces)
      else (defs, def_interfaces obj interfaces))"

text \<open>The body of the loop over \<^verbatim>\<open>pkg.Uses\<close>.\<close>

definition use_step :: "object \<Rightarrow> defs \<Rightarrow> defs" where
  "use_step obj defs = AList.update obj True defs"

text \<open>The visitor. \<open>lit_type\<close> is the value of the variable \<^verbatim>\<open>obj\<close> where the
  visitor goes on to \<^verbatim>\<open>obj.Underlying()\<close>, \<open>None\<close> where it returns early.\<close>

fun is_KeyValueExpr :: "node \<Rightarrow> bool" where
  "is_KeyValueExpr (KeyValueExpr k v) = True"
| "is_KeyValueExpr n = False"

fun lit_type :: "node option \<Rightarrow> gtype option \<Rightarrow> error + gtype option" where
  "lit_type (Some (StructType fs)) (Some t) = Inr (Some t)"
| "lit_type (Some (StructType fs)) None = Inl NilDereference"
| "lit_type (Some (Ident None)) tyof = Inl NilDereference"
| "lit_type (Some (Ident (Some ob))) tyof =
     (case otype ob of Named n u \<Rightarrow> Inr (Some (Named n u)) | _ \<Rightarrow> Inr None)"
| "lit_type ty tyof = Inr None"

definition basic :: "node list \<Rightarrow> bool" where
  "basic elts = list_ex (\<lambda>elt. \<not> is_KeyValueExpr elt) elts"

definition mark_fields :: "object list \<Rightarrow> defs \<Rightarrow> defs" where
  "mark_fields fs defs = fold (\<lambda>field d. AList.update field True d) fs defs"

fun visit :: "node \<Rightarrow> defs \<Rightarrow> error + defs" where
  "visit (CompositeLit ty elts tyof) defs =
     (case lit_type ty tyof of
        Inl e \<Rightarrow> Inl e
      | Inr None \<Rightarrow> Inr defs
      | Inr (Some t) \<Rightarrow>
          (case Underlying t of
             Struct fs \<Rightarrow> if basic elts then Inr (mark_fields fs defs) else Inr defs
           | _ \<Rightarrow> Inr defs))"
| "visit n defs = Inr defs"

text \<open>\<^verbatim>\<open>ast.Walk\<close> calls the visitor on a node and then, the visitor never returning
  nil, on its children in order: the nodes in preorder.\<close>

fun preorder :: "node \<Rightarrow> node list" where
  "preorder (CompositeLit ty elts tyof) =
     CompositeLit ty elts tyof #
       (case ty of None \<Rightarrow> [] | Some t \<Rightarrow> preorder t) @ concat (map preorder elts)"
| "preorder (StructType fs) = StructType fs # concat (map preorder fs)"
| "preorder (Ident ob) = [Ident ob]"
| "preorder (KeyValueExpr k v) = KeyValueExpr k v # preorder k @ preorder v"
| "preorder (OtherNode ns) = OtherNode ns # concat (map preorder ns)"

fun visit_all :: "node list \<Rightarrow> defs \<Rightarrow> error + defs" where
  "visit_all [] defs = Inr defs"
| "visit_all (n # ns) defs =
     (case visit n defs of Inl e \<Rightarrow> Inl e | Inr defs' \<Rightarrow> visit_all ns defs')"

definition Walk :: "node \<Rightarrow> defs \<Rightarrow> error + defs" where
  "Walk file defs = visit_all (preorder file) defs"

fun walk_files :: "node list \<Rightarrow> defs \<Rightarrow> error + defs" where
  "walk_files [] defs = Inr defs"
| "walk_files (file # files) defs =
     (case Walk file defs of Inl e \<Rightarrow> Inl e | Inr defs' \<Rightarrow> walk_files files defs')"

text \<open>One round of the loop over \<^verbatim>\<open>lprog.InitialPackages()\<close>.\<close>

definition construct_pkg :: "PackageInfo \<Rightarrow> cstate \<Rightarrow> error + cstate" where
  "construct_pkg pkg st =
     (case fold def_step (Defs pkg) st of
        (defs1, interfaces) \<Rightarrow>
          (case walk_files (Files pkg) (fold use_step (Uses pkg) defs1) of
             Inl e \<Rightarrow> Inl e
           | Inr defs3 \<Rightarrow> Inr (defs3, interfaces)))"

fun construct :: "PackageInfo list \<Rightarrow> cstate \<Rightarrow> error + cstate" where
  "construct [] st = Inr st"
| "construct (pkg # pkgs) st =
     (case construct_pkg pkg st of Inl e \<Rightarrow> Inl e | Inr st' \<Rightarrow> construct pkgs st')"

subsection \<open>Check: the filter\<close>

text \<open>The body of the loop over \<^verbatim>\<open>defs\<close>: \<open>Inr True\<close> where the object is appended to
  \<^verbatim>\<open>unused\<close>, \<open>Inr False\<close> where the loop continues.\<close>

definition export_amnesty :: "object \<Rightarrow> bool" where
  "export_amnesty obj =
     (Exported obj \<and> (isPkgScope obj \<or> isMethod obj \<or> isField obj) \<and>
      (\<not> HasSuffix (Filename obj) ''_test.go'' \<or>
       HasPrefix (Name obj) ''Test'' \<or>
       HasPrefix (Name obj) ''Benchmark'' \<or>
       HasPrefix (Name obj) ''Example''))"

definition is_unused :: "env \<Rightarrow> Checker \<Rightarrow> interface list \<Rightarrow> object \<Rightarrow> bool \<Rightarrow> error + bool" where
  "is_unused E c interfaces obj used =
     (if Pkg obj = None then Inr False
      else if \<not> checkFlags c obj then Inr False
      else if used then Inr False
      else if Name obj = ''_'' then Inr False
      else if export_amnesty obj then Inr False
      else if isMain obj then Inr False
      else if isFunction obj \<and> \<not> isMethod obj \<and> Name obj = ''init'' then Inr False
      else if isMethod obj
      then (case implements E obj interfaces of
              Inl e \<Rightarrow> Inl e
            | Inr b \<Rightarrow> Inr (\<not> b))
      else Inr True)"

fun filter_defs ::
  "env \<Rightarrow> Checker \<Rightarrow> interface list \<Rightarrow> defs \<Rightarrow> object list \<Rightarrow> error + object list" where
  "filter_defs E c interfaces [] unused = Inr unused"
| "filter_defs E c interfaces ((obj, used) # rest) unused =
     (case is_unused E c interfaces obj used of
        Inl e \<Rightarrow> Inl e
      | Inr True \<Rightarrow> filter_defs E c interfaces rest (unused @ [obj])
      | Inr False \<Rightarrow> filter_defs E c interfaces rest unused)"

subsection \<open>Check\<close>

text \<open>The result is the slice \<^verbatim>\<open>paths\<close> as the caller finds it afterwards, and the
  returned pair as a sum. The assignment to \<^verbatim>\<open>c.Fset\<close> has no counterpart: the file
  of an object is part of the object here.\<close>

definition Check :: "env \<Rightarrow> Checker \<Rightarrow> string list \<Rightarrow> string list \<times> (error + object list)" where
  "Check E c paths =
     (case resolveRelative E paths of
        (paths', Some err) \<Rightarrow> (paths', Inl err)
      | (paths', None) \<Rightarrow>
          (case Load E (Verbose c) paths' of
             Inl err \<Rightarrow> (paths', Inl (LoadError err))
           | Inr pkgs \<Rightarrow>
               (case construct pkgs ([], []) of
                  Inl e \<Rightarrow> (paths', Inl e)
                | Inr (defs, interfaces) \<Rightarrow>
                    (paths', filter_defs E c interfaces defs []))))"


section \<open>Auxiliary notions for the statements\<close>



section \<open>Example programs\<close>

text \<open>An environment that resolves \<^verbatim>\<open>"."\<close> to \<^verbatim>\<open>example.com/p\<close>, fails on
  \<^verbatim>\<open>"missing"\<close>, loads the given packages, and lets exactly the type \<^verbatim>\<open>S\<close>
  implement the interfaces whose methods are among \<^verbatim>\<open>String\<close> and \<^verbatim>\<open>Write\<close>.\<close>

definition tyS :: gtype where
  "tyS = Named ''S'' (Struct [])"

definition ex_env :: "PackageInfo list \<Rightarrow> env" where
  "ex_env pkgs =
     \<lparr>Getwd = Inr ''/src/example.com/p'',
      build_Import = (\<lambda>path wd.
         if path = ''.'' then Inr ''example.com/p''
         else if path = ''missing'' then Inl ''cannot find package''
         else Inr path),
      Load = (\<lambda>verbose paths. Inr pkgs),
      types_Implements = (\<lambda>t iface.
         t = tyS \<and> list_all (\<lambda>m. m \<in> set [''String'', ''Write'']) (method_names iface))\<rparr>"

definition all_kinds :: Checker where
  "all_kinds =
     \<lparr>Mode = or CheckConstants (or CheckFields (or CheckFunctions (or CheckTypes CheckVariables))),
      Verbose = False\<rparr>"

definition pkgP :: package where
  "pkgP = Package ''p'' (Scope 1)"

text \<open>\<^verbatim>\<open>type T struct { a, b int }\<close> in \<^verbatim>\<open>t.go\<close>, with the literals
  \<^verbatim>\<open>T{1, 2}\<close> and \<^verbatim>\<open>T{a: 1}\<close>.\<close>

definition field_a :: object where
  "field_a = Object 1 (Var True) (Some pkgP) None ''a'' False ''t.go'' OtherType"

definition field_b :: object where
  "field_b = Object 2 (Var True) (Some pkgP) None ''b'' False ''t.go'' OtherType"

definition type_T :: object where
  "type_T = Object 3 TypeName (Some pkgP) (Some (Scope 1)) ''T'' True ''t.go''
              (Named ''T'' (Struct [field_a, field_b]))"


definition lit_keyed :: node where
  "lit_keyed =
     CompositeLit (Some (Ident (Some type_T))) [KeyValueExpr (Ident (Some field_a)) (OtherNode [])] None"


definition pkg_keyed :: PackageInfo where
  "pkg_keyed =
     \<lparr>Defs = [Some type_T, Some field_a, Some field_b], Uses = [type_T, field_a],
      Files = [OtherNode [lit_keyed]]\<rparr>"





text \<open>\<^verbatim>\<open>type Stringer interface { String() string }\<close> in \<^verbatim>\<open>s.go\<close>, and in
  \<^verbatim>\<open>helper_test.go\<close> the methods \<^verbatim>\<open>func (S) String() string\<close> and
  \<^verbatim>\<open>func (S) name() string\<close>, neither called by name.\<close>

definition iface_Stringer :: interface where
  "iface_Stringer = InterfaceT 1 [''String'']"

definition type_Stringer :: object where
  "type_Stringer = Object 10 TypeName (Some pkgP) (Some (Scope 1)) ''Stringer'' True ''s.go''
                     (Named ''Stringer'' (Interface iface_Stringer))"

definition method_String :: object where
  "method_String = Object 11 (Func (Some tyS)) (Some pkgP) None ''String'' True
                     ''helper_test.go'' OtherType"

definition method_name :: object where
  "method_name = Object 12 (Func (Some tyS)) (Some pkgP) None ''name'' False
                   ''helper_test.go'' OtherType"

definition pkg_stringer :: PackageInfo where
  "pkg_stringer =
     \<lparr>Defs = [Some type_Stringer, Some method_String, Some method_name], Uses = [], Files = []\<rparr>"





text \<open>Package \<^verbatim>\<open>main\<close> with \<^verbatim>\<open>main\<close>, \<^verbatim>\<open>init\<close> and an unreferenced
  \<^verbatim>\<open>helper\<close>, using the builtin \<^verbatim>\<open>len\<close> of the universe.\<close>

definition pkgMain :: package where
  "pkgMain = Package ''main'' (Scope 2)"

definition func_main :: object where
  "func_main = Object 30 (Func None) (Some pkgMain) (Some (Scope 2)) ''main'' False ''main.go'' OtherType"

definition func_init :: object where
  "func_init = Object 31 (Func None) (Some pkgMain) (Some (Scope 2)) ''init'' False ''main.go'' OtherType"

definition func_helper :: object where
  "func_helper = Object 32 (Func None) (Some pkgMain) (Some (Scope 2)) ''helper'' False ''main.go'' OtherType"

definition builtin_len :: object where
  "builtin_len = Object 33 Builtin None (Some Universe) ''len'' False [] OtherType"

definition pkg_main :: PackageInfo where
  "pkg_main =
     \<lparr>Defs = [None, Some func_main, Some func_init, Some func_helper], Uses = [builtin_len],
      Files = []\<rparr>"

text \<open>A package \<^verbatim>\<open>p\<close> whose \<^verbatim>\<open>export_test.go\<close> declares
  \<^verbatim>\<open>var ExportedForTest = 1\<close>, and its external test package \<^verbatim>\<open>p_test\<close>, which
  refers to it. The loader lists the test package first.\<close>

definition var_ExportedForTest :: object where
  "var_ExportedForTest = Object 40 (Var False) (Some pkgP) (Some (Scope 1)) ''ExportedForTest'' True
                           ''export_test.go'' OtherType"

definition pkg_p :: PackageInfo where
  "pkg_p = \<lparr>Defs = [Some var_ExportedForTest], Uses = [], Files = []\<rparr>"

definition pkg_p_test :: PackageInfo where
  "pkg_p_test = \<lparr>Defs = [None], Uses = [var_ExportedForTest], Files = []\<rparr>"

text \<open>\<^verbatim>\<open>var w io.Writer\<close> in \<^verbatim>\<open>w.go\<close> (package \<^verbatim>\<open>io\<close> is not analysed)
  and, in \<^verbatim>\<open>w_test.go\<close>, \<^verbatim>\<open>func (S) Write(p []byte) (int, error)\<close>, called only
  through \<^verbatim>\<open>w\<close>.\<close>

definition iface_Writer :: interface where
  "iface_Writer = InterfaceT 2 [''Write'']"

definition io_Writer :: gtype where
  "io_Writer = Named ''Writer'' (Interface iface_Writer)"

definition var_w :: object where
  "var_w = Object 50 (Var False) (Some pkgP) (Some (Scope 1)) ''w'' False ''w.go'' io_Writer"

definition method_Write :: object where
  "method_Write = Object 51 (Func (Some tyS)) (Some pkgP) None ''Write'' True ''w_test.go'' OtherType"

definition iface_Write :: object where
  "iface_Write = Object 52 (Func (Some io_Writer)) (Some (Package ''io'' (Scope 3))) None ''Write'' True
                   ''io.go'' OtherType"

definition pkg_writer :: PackageInfo where
  "pkg_writer = \<lparr>Defs = [Some var_w, Some method_Write], Uses = [var_w, iface_Write], Files = []\<rparr>"



section \<open>Properties of the filter\<close>

lemma isMethod_kind: "isMethod obj \<Longrightarrow> \<exists>t. kind obj = Func (Some t)"
  by (auto simp: isMethod_def isFunction_def split: okind.splits)

lemma implements_method:
  "kind obj = Func (Some t) \<Longrightarrow> implements E obj ifaces = Inr (implements_loop E t (Name obj) ifaces)"
  by (simp add: implements_def)

lemma is_unused_total: "\<exists>b. is_unused E c interfaces obj used = Inr b"
  using isMethod_kind[of obj] by (auto simp: is_unused_def implements_def)

lemma filter_defs_eq:
  "filter_defs E c interfaces defs unused =
     Inr (unused @ map fst (filter (\<lambda>(obj, used). is_unused E c interfaces obj used = Inr True) defs))"
proof (induction defs arbitrary: unused)
  case Nil
  show ?case by simp
next
  case (Cons a defs)
  obtain obj used where a: "a = (obj, used)" by (cases a)
  obtain b where b: "is_unused E c interfaces obj used = Inr b"
    using is_unused_total by blast
  show ?case using Cons.IH a b by (cases b) simp_all
qed

lemma implements_loop_iff:
  "implements_loop E t nm ifaces \<longleftrightarrow>
     (\<exists>iface\<in>set ifaces. types_Implements E t iface \<and> nm \<in> set (method_names iface))"
  by (induction ifaces) (auto simp: list_ex_iff)

lemma Check_Inr:
  assumes "Check E c paths = (paths', Inr unused)"
  shows "\<exists>pkgs defs interfaces.
           resolveRelative E paths = (paths', None) \<and>
           Load E (Verbose c) paths' = Inr pkgs \<and>
           construct pkgs ([], []) = Inr (defs, interfaces) \<and>
           unused = map fst (filter (\<lambda>(obj, used). is_unused E c interfaces obj used = Inr True) defs)"
  using assms
  by (auto simp: Check_def filter_defs_eq split: prod.splits option.splits sum.splits)

lemma in_unused:
  assumes "Check E c paths = (paths', Inr unused)" and "obj \<in> set unused"
  shows "\<exists>pkgs defs interfaces used.
           Load E (Verbose c) paths' = Inr pkgs \<and>
           construct pkgs ([], []) = Inr (defs, interfaces) \<and>
           (obj, used) \<in> set defs \<and> is_unused E c interfaces obj used = Inr True"
  using Check_Inr[OF assms(1)] assms(2) by fastforce

lemma is_unused_True:
  "is_unused E c interfaces obj used = Inr True \<longleftrightarrow>
     Pkg obj \<noteq> None \<and> checkFlags c obj \<and> \<not> used \<and> Name obj \<noteq> ''_'' \<and> \<not> export_amnesty obj \<and>
     \<not> isMain obj \<and> \<not> (isFunction obj \<and> \<not> isMethod obj \<and> Name obj = ''init'') \<and>
     \<not> (isMethod obj \<and> implements E obj interfaces = Inr True)"
  using isMethod_kind[of obj] by (auto simp: is_unused_def implements_def)

text \<open>C10. A symbol whose owning package is nil never appears in the result of
  \<^verbatim>\<open>Check\<close>, whatever the mask and whatever its used flag.\<close>

theorem nil_pkg_never_reported:
  "Check E c paths = (paths', Inr unused) \<Longrightarrow> Pkg obj = None \<Longrightarrow> obj \<notin> set unused"
  using in_unused[of E c paths paths' unused obj] by (auto simp: is_unused_True)

section \<open>Properties of the construction\<close>

















section \<open>Results of Check\<close>

theorem nil_pkg_never_reported_witness:
  "Check (ex_env [pkg_main]) all_kinds [''.''] = ([''example.com/p''], Inr [func_helper]) \<and>
   Pkg builtin_len = None \<and> builtin_len \<notin> set [func_helper]"
proof -
  have h: "Check (ex_env [pkg_main]) all_kinds [''.''] = ([''example.com/p''], Inr [func_helper])"
    by code_simp
  have p: "Pkg builtin_len = None"
    by code_simp
  have r: "builtin_len \<notin> set [func_helper]"
    by (rule nil_pkg_never_reported[OF h p])
  show ?thesis by (intro conjI h p r)
qed

text \<open>C8. The package-scope function \<^verbatim>\<open>main\<close> without receiver of a package named
  \<^verbatim>\<open>main\<close>, and every function \<^verbatim>\<open>init\<close> without receiver, are never in the result
  of \<^verbatim>\<open>Check\<close>, whatever the mask and whether referenced or not.\<close>

theorem entry_points_never_reported:
  assumes "Check E c paths = (paths', Inr unused)"
    and "(\<exists>p. Pkg obj = Some p \<and> pkg_Name p = ''main'' \<and> Parent obj = Some (pkg_Scope p) \<and>
              kind obj = Func None \<and> Name obj = ''main'') \<or>
         (kind obj = Func None \<and> Name obj = ''init'')"
  shows "obj \<notin> set unused"
proof
  assume "obj \<in> set unused"
  from in_unused[OF assms(1) this] obtain interfaces used where
    u: "is_unused E c interfaces obj used = Inr True" by blast
  from assms(2) have "isMain obj \<or> (isFunction obj \<and> \<not> isMethod obj \<and> Name obj = ''init'')"
    by (auto simp: isMain_def isPkgScope_def isFunction_def isMethod_def)
  with u show False by (simp add: is_unused_True)
qed

theorem entry_points_never_reported_witness:
  "Check (ex_env [pkg_main]) all_kinds [''.''] = ([''example.com/p''], Inr [func_helper]) \<and>
   func_main \<notin> set [func_helper] \<and> func_init \<notin> set [func_helper]"
proof -
  have h: "Check (ex_env [pkg_main]) all_kinds [''.''] = ([''example.com/p''], Inr [func_helper])"
    by code_simp
  have m: "(\<exists>p. Pkg func_main = Some p \<and> pkg_Name p = ''main'' \<and> Parent func_main = Some (pkg_Scope p) \<and>
              kind func_main = Func None \<and> Name func_main = ''main'') \<or>
         (kind func_main = Func None \<and> Name func_main = ''init'')"
    by (simp add: func_main_def pkgMain_def)
  have i: "(\<exists>p. Pkg func_init = Some p \<and> pkg_Name p = ''main'' \<and> Parent func_init = Some (pkg_Scope p) \<and>
              kind func_init = Func None \<and> Name func_init = ''main'') \<or>
         (kind func_init = Func None \<and> Name func_init = ''init'')"
    by (simp add: func_init_def pkgMain_def)
  show ?thesis
    by (intro conjI h entry_points_never_reported[OF h m] entry_points_never_reported[OF h i])
qed

text \<open>C2. A method whose receiver type implements an interface collected during the
  construction, where that interface has a method of the same name, is never in the
  result of \<^verbatim>\<open>Check\<close>.\<close>

theorem interface_methods_never_reported:
  assumes "Check E c paths = (paths', Inr unused)"
    and "Load E (Verbose c) paths' = Inr pkgs"
    and "construct pkgs ([], []) = Inr (defs, interfaces)"
    and "kind obj = Func (Some recvType)"
    and "iface \<in> set interfaces"
    and "types_Implements E recvType iface"
    and "Name obj \<in> set (method_names iface)"
  shows "obj \<notin> set unused"
proof
  assume "obj \<in> set unused"
  from in_unused[OF assms(1) this] assms(2,3) obtain used where
    u: "is_unused E c interfaces obj used = Inr True" by auto
  have m: "isMethod obj"
    using assms(4) by (simp add: isMethod_def isFunction_def)
  have "implements E obj interfaces = Inr True"
    using assms(4-7) by (auto simp: implements_method implements_loop_iff)
  with u m show False by (simp add: is_unused_True)
qed

theorem interface_methods_never_reported_witness:
  "Check (ex_env [pkg_stringer]) all_kinds [''.''] = ([''example.com/p''], Inr [method_name]) \<and>
   construct [pkg_stringer] ([], []) =
     Inr ([(type_Stringer, False), (method_String, False), (method_name, False)], [iface_Stringer]) \<and>
   kind method_String = Func (Some tyS) \<and>
   types_Implements (ex_env [pkg_stringer]) tyS iface_Stringer \<and>
   method_String \<notin> set [method_name]"
proof -
  have h: "Check (ex_env [pkg_stringer]) all_kinds [''.''] = ([''example.com/p''], Inr [method_name])"
    by code_simp
  have l: "Load (ex_env [pkg_stringer]) (Verbose all_kinds) [''example.com/p''] = Inr [pkg_stringer]"
    by (simp add: ex_env_def)
  have k: "construct [pkg_stringer] ([], []) =
     Inr ([(type_Stringer, False), (method_String, False), (method_name, False)], [iface_Stringer])"
    by code_simp
  have f: "kind method_String = Func (Some tyS)"
    by (simp add: method_String_def)
  have i: "iface_Stringer \<in> set [iface_Stringer]"
    by simp
  have t: "types_Implements (ex_env [pkg_stringer]) tyS iface_Stringer"
    by (simp add: ex_env_def iface_Stringer_def)
  have n: "Name method_String \<in> set (method_names iface_Stringer)"
    by (simp add: method_String_def iface_Stringer_def)
  show ?thesis
    by (intro conjI h k f t interface_methods_never_reported[OF h l k f i t n])
qed

lemma resolve_range_ok:
  "resolve_range E wd paths = (paths', None) \<Longrightarrow>
     list_all2 (\<lambda>path path'. build_Import E path wd = Inr path') paths paths'"
  by (induction paths arbitrary: paths') (auto split: sum.splits prod.splits)

lemma fst_Check: "fst (Check E c paths) = fst (resolveRelative E paths)"
  by (simp add: Check_def split: prod.splits option.splits sum.splits)

text \<open>C9. \<^verbatim>\<open>Check\<close> overwrites the slice it is given: when the resolution of the paths
  succeeds, the caller finds in place of every path its import path as
  \<^verbatim>\<open>build.Import\<close> gave it, whatever \<^verbatim>\<open>Check\<close> returns afterwards.\<close>

theorem Check_overwrites_paths:
  assumes "resolveRelative E paths = (paths', None)"
  shows "fst (Check E c paths) = paths' \<and>
         (\<exists>wd. Getwd E = Inr wd \<and>
               list_all2 (\<lambda>path path'. build_Import E path wd = Inr path') paths paths')"
proof -
  from assms obtain wd where wd: "Getwd E = Inr wd" and r: "resolve_range E wd paths = (paths', None)"
    by (auto simp: resolveRelative_def split: sum.splits)
  show ?thesis
    using wd resolve_range_ok[OF r] by (simp add: fst_Check assms)
qed

theorem Check_overwrites_paths_witness:
  "resolveRelative (ex_env [pkg_main]) [''.'', ''example.com/q''] =
     ([''example.com/p'', ''example.com/q''], None) \<and>
   fst (Check (ex_env [pkg_main]) all_kinds [''.'', ''example.com/q'']) =
     [''example.com/p'', ''example.com/q'']"
proof -
  have r: "resolveRelative (ex_env [pkg_main]) [''.'', ''example.com/q''] =
     ([''example.com/p'', ''example.com/q''], None)"
    by code_simp
  from Check_overwrites_paths[OF r, of all_kinds] r show ?thesis by blast
qed

section \<open>Evaluations\<close>

text \<open>C3. The union of the results of \<^verbatim>\<open>Check\<close> under the five single-kind masks should
  be its result under the mask of all kinds. Evaluated on a package whose struct
  \<^verbatim>\<open>T\<close> has the unreferenced field \<^verbatim>\<open>b\<close>: every single-kind mask gives the empty
  result, also \<^verbatim>\<open>CheckFields\<close>, and the mask of all kinds reports \<^verbatim>\<open>b\<close>.\<close>

theorem single_kind_masks_lose_fields:
  "snd (Check (ex_env [pkg_keyed]) \<lparr>Mode = CheckConstants, Verbose = False\<rparr> [''.'']) = Inr [] \<and>
   snd (Check (ex_env [pkg_keyed]) \<lparr>Mode = CheckFields, Verbose = False\<rparr> [''.'']) = Inr [] \<and>
   snd (Check (ex_env [pkg_keyed]) \<lparr>Mode = CheckFunctions, Verbose = False\<rparr> [''.'']) = Inr [] \<and>
   snd (Check (ex_env [pkg_keyed]) \<lparr>Mode = CheckTypes, Verbose = False\<rparr> [''.'']) = Inr [] \<and>
   snd (Check (ex_env [pkg_keyed]) \<lparr>Mode = CheckVariables, Verbose = False\<rparr> [''.'']) = Inr [] \<and>
   snd (Check (ex_env [pkg_keyed]) all_kinds [''.'']) = Inr [field_b]"
  by code_simp

text \<open>C4. A used flag, once true, should stay true through the construction. Evaluated on
  the test package \<^verbatim>\<open>p_test\<close> followed by \<^verbatim>\<open>p\<close>: after the first package the
  flag of \<^verbatim>\<open>ExportedForTest\<close> is true, the definitions of the second package set it
  back to false, and \<^verbatim>\<open>Check\<close> reports the variable although it is referenced. In the
  other order it is not reported.\<close>

theorem used_flag_reset_by_later_package:
  "construct [pkg_p_test] ([], []) = Inr ([(var_ExportedForTest, True)], []) \<and>
   construct [pkg_p_test, pkg_p] ([], []) = Inr ([(var_ExportedForTest, False)], []) \<and>
   snd (Check (ex_env [pkg_p_test, pkg_p]) all_kinds [''.'']) = Inr [var_ExportedForTest] \<and>
   snd (Check (ex_env [pkg_p, pkg_p_test]) all_kinds [''.'']) = Inr []"
  by code_simp

text \<open>C6. The interface of every variable whose type reduces to an interface should be
  recorded. Evaluated on \<^verbatim>\<open>var w io.Writer\<close>: the type of \<^verbatim>\<open>w\<close> is a named type
  whose underlying type is an interface, the loop over the definitions records nothing
  for it (for a type name of the same type it does), and the method \<^verbatim>\<open>Write\<close> of a
  type that implements the interface, declared in a test file, is reported; with the
  interface in the list the filter skips the method.\<close>

theorem named_interface_of_variable_not_recorded:
  "kind var_w = Var False \<and>
   Underlying (otype var_w) = Interface iface_Writer \<and>
   def_interfaces var_w [] = [] \<and>
   def_interfaces (Object 53 TypeName (Some pkgP) (Some (Scope 1)) ''W'' True ''w.go'' io_Writer) [] =
     [iface_Writer] \<and>
   construct [pkg_writer] ([], []) =
     Inr ([(var_w, True), (method_Write, False), (iface_Write, True)], []) \<and>
   types_Implements (ex_env [pkg_writer]) tyS iface_Writer \<and>
   Exported method_Write \<and> HasSuffix (Filename method_Write) ''_test.go'' \<and>
   is_unused (ex_env [pkg_writer]) all_kinds [iface_Writer] method_Write False = Inr False \<and>
   is_unused (ex_env [pkg_writer]) all_kinds [] method_Write False = Inr True \<and>
   snd (Check (ex_env [pkg_writer]) all_kinds [''.'']) = Inr [method_Write]"
  by code_simp

section \<open>Membership of the table\<close>





section \<open>The export amnesty\<close>






section \<open>Fields and composite literals\<close>











end
